theory Spec2Isabelle
  imports Main "HOL-Library.Sublist"
begin

section \<open>Go values and library functions the handlers use\<close>

text \<open>
  A Go \<^verbatim>\<open>string\<close> and a \<^verbatim>\<open>[]byte\<close> are byte sequences; a HOL \<^typ>\<open>char\<close> is one byte.
  A Go \<^verbatim>\<open>error\<close> is modelled by its message (\<^verbatim>\<open>err.Error()\<close>), \<^verbatim>\<open>nil\<close> by \<^term>\<open>None\<close>.
\<close>

type_synonym bytes = string
type_synonym goerror = "string option"

text \<open>\<^verbatim>\<open>strings.HasPrefix\<close> and \<^verbatim>\<open>strings.Contains\<close>.\<close>

fun HasPrefix :: "string \<Rightarrow> string \<Rightarrow> bool" where
  "HasPrefix s [] = True"
| "HasPrefix [] (p # ps) = False"
| "HasPrefix (c # s) (p # ps) = (c = p \<and> HasPrefix s ps)"

fun Contains :: "string \<Rightarrow> string \<Rightarrow> bool" where
  "Contains [] substr = (substr = [])"
| "Contains (c # s) substr = (HasPrefix (c # s) substr \<or> Contains s substr)"

text \<open>
  \<^verbatim>\<open>filepath.Ext\<close> (Unix): scan from the last byte to the left, stop at a path separator,
  return the suffix that starts at the first dot met. The second argument of \<open>extScan\<close> holds
  the bytes already passed.
\<close>

fun extScan :: "string \<Rightarrow> string \<Rightarrow> string" where
  "extScan [] passed = []"
| "extScan (c # left) passed =
     (if c = CHR ''/'' then []
      else if c = CHR ''.'' then c # passed
      else extScan left (c # passed))"

definition Ext :: "string \<Rightarrow> string" where
  "Ext path = extScan (rev path) []"

text \<open>
  \<^verbatim>\<open>mime.TypeByExtension\<close>. The package holds two tables, one keyed by the extension as
  registered and one keyed by its lower-case form. The lookup is case-sensitive first; then
  the extension is lower-cased byte by byte when it is ASCII, and through
  \<^verbatim>\<open>strings.ToLower\<close> as soon as one byte is \<open>0x80\<close> or more. Unicode lower-casing is not
  modelled: it is the field \<open>ToLower\<close>, consulted on that path only. An extension that is
  not in the tables gives the empty string.
\<close>

record mime_pkg =
  mimeTypes :: "string \<rightharpoonup> string"
  mimeTypesLower :: "string \<rightharpoonup> string"
  ToLower :: "string \<Rightarrow> string"

definition asciiLower :: "char \<Rightarrow> char" where
  "asciiLower c =
     (let n = (of_char c :: nat) in if 65 \<le> n \<and> n \<le> 90 then char_of (n + 32) else c)"

definition loadOrEmpty :: "(string \<rightharpoonup> string) \<Rightarrow> string \<Rightarrow> string" where
  "loadOrEmpty tbl k = (case tbl k of Some v \<Rightarrow> v | None \<Rightarrow> [])"

definition TypeByExtension :: "mime_pkg \<Rightarrow> string \<Rightarrow> string" where
  "TypeByExtension m ext =
     (case mimeTypes m ext of
        Some v \<Rightarrow> v
      | None \<Rightarrow>
          if list_ex (\<lambda>c. 128 \<le> (of_char c :: nat)) ext
          then loadOrEmpty (mimeTypesLower m) (ToLower m ext)
          else loadOrEmpty (mimeTypesLower m) (map asciiLower ext))"

text \<open>
  The table the Go runtime starts with (\<^verbatim>\<open>builtinTypesLower\<close> of package \<^verbatim>\<open>mime\<close>); both
  tables are initialised from it. Entries a host adds from its own \<^verbatim>\<open>mime.types\<close> files
  are outside the model.
\<close>

definition builtinTypesLower :: "(string \<times> string) list" where
  "builtinTypesLower =
    [(''.avif'', ''image/avif''),
     (''.css'', ''text/css; charset=utf-8''),
     (''.gif'', ''image/gif''),
     (''.htm'', ''text/html; charset=utf-8''),
     (''.html'', ''text/html; charset=utf-8''),
     (''.jpeg'', ''image/jpeg''),
     (''.jpg'', ''image/jpeg''),
     (''.js'', ''text/javascript; charset=utf-8''),
     (''.json'', ''application/json''),
     (''.mjs'', ''text/javascript; charset=utf-8''),
     (''.pdf'', ''application/pdf''),
     (''.png'', ''image/png''),
     (''.svg'', ''image/svg+xml''),
     (''.wasm'', ''application/wasm''),
     (''.webp'', ''image/webp''),
     (''.xml'', ''text/xml; charset=utf-8'')]"

definition builtinMime :: "(string \<Rightarrow> string) \<Rightarrow> mime_pkg" where
  "builtinMime lower =
     \<lparr>mimeTypes = map_of builtinTypesLower,
      mimeTypesLower = map_of builtinTypesLower,
      ToLower = lower\<rparr>"

section \<open>The cache: \<^verbatim>\<open>RedisCache\<close>\<close>

text \<open>
  The Redis client is an external collaborator. It is modelled as a key-value store with two
  injectable faults, the shape of the test double the repository's handler tests use: a
  \<^verbatim>\<open>GET\<close> answers with the fault if one is set, with \<^verbatim>\<open>redis.Nil\<close> for a key the store does
  not hold, and with the bytes otherwise; a \<^verbatim>\<open>SET\<close> answers with the fault if one is set and
  stores the bytes otherwise. Expiry of an entry after its TTL is a matter of real time and
  is not modelled.
\<close>

datatype redis_reply = RedisNil | RedisError string | RedisBytes bytes

record redis_client =
  kv :: "string \<rightharpoonup> bytes"
  get_fault :: "string option"
  set_fault :: "string option"

definition redis_Get :: "redis_client \<Rightarrow> string \<Rightarrow> redis_reply" where
  "redis_Get cl key =
     (case get_fault cl of
        Some e \<Rightarrow> RedisError e
      | None \<Rightarrow> (case kv cl key of None \<Rightarrow> RedisNil | Some v \<Rightarrow> RedisBytes v))"

definition redis_Set :: "redis_client \<Rightarrow> string \<Rightarrow> bytes \<Rightarrow> int \<Rightarrow> redis_client \<times> goerror" where
  "redis_Set cl key data expiration =
     (case set_fault cl of
        Some e \<Rightarrow> (cl, Some e)
      | None \<Rightarrow> (cl\<lparr>kv := (kv cl)(key \<mapsto> data)\<rparr>, None))"

record RedisCache =
  client :: redis_client
  ttl :: int

text \<open>\<^verbatim>\<open>RedisCache.Get\<close> returns (data, found, err).\<close>

definition RedisCache_Get :: "RedisCache \<Rightarrow> string \<Rightarrow> bytes \<times> bool \<times> goerror" where
  "RedisCache_Get c key =
     (case redis_Get (client c) key of
        RedisNil \<Rightarrow> ([], False, None)
      | RedisError e \<Rightarrow> ([], False, Some (''redis get error: '' @ e))
      | RedisBytes data \<Rightarrow> (data, True, None))"

definition RedisCache_Set :: "RedisCache \<Rightarrow> string \<Rightarrow> bytes \<Rightarrow> RedisCache \<times> goerror" where
  "RedisCache_Set c key data =
     (case redis_Set (client c) key data (ttl c) of
        (cl, Some e) \<Rightarrow> (c\<lparr>client := cl\<rparr>, Some (''redis set error: '' @ e))
      | (cl, None) \<Rightarrow> (c\<lparr>client := cl\<rparr>, None))"

section \<open>The origin: \<^verbatim>\<open>R2Client\<close>\<close>

text \<open>
  The S3 client is external too. The handlers only read from it, so it is modelled by what
  it answers for a bucket and a key: \<^verbatim>\<open>GetObject\<close> fails with a message or returns a body
  whose reading (\<^verbatim>\<open>io.ReadAll\<close>) fails with a message or yields the bytes; \<^verbatim>\<open>HeadObject\<close>
  fails with a message or succeeds.
\<close>

datatype s3_get_output = S3Error string | S3Body "string + bytes"

record s3_client =
  s3_GetObject :: "string \<Rightarrow> string \<Rightarrow> s3_get_output"
  s3_HeadObject :: "string \<Rightarrow> string \<Rightarrow> goerror"

record R2Client =
  s3client :: s3_client
  bucketName :: string

definition R2Client_GetObject :: "R2Client \<Rightarrow> string \<Rightarrow> string + bytes" where
  "R2Client_GetObject r key =
     (case s3_GetObject (s3client r) (bucketName r) key of
        S3Error e \<Rightarrow> Inl (''failed to get object '' @ key @ '': '' @ e)
      | S3Body (Inl e) \<Rightarrow> Inl (''failed to read object body: '' @ e)
      | S3Body (Inr data) \<Rightarrow> Inr data)"

text \<open>\<^verbatim>\<open>R2Client.ObjectExists\<close> returns (exists, err).\<close>

definition ObjectExists :: "R2Client \<Rightarrow> string \<Rightarrow> bool \<times> goerror" where
  "ObjectExists r key =
     (case s3_HeadObject (s3client r) (bucketName r) key of
        Some e \<Rightarrow> (False, None)
      | None \<Rightarrow> (True, None))"

section \<open>HTTP responses\<close>

record Response =
  Success :: bool
  Message :: string
  Data :: "(string \<rightharpoonup> string) option"

text \<open>
  A handler writes its response once. The body is either the JSON encoding of a
  \<^verbatim>\<open>Response\<close> (kept as the value that is encoded) or the bytes of a file.
\<close>

datatype body = JSON Response | File bytes

record http_response =
  status :: nat
  header :: "string \<rightharpoonup> string"
  body :: body

definition writeJSON :: "nat \<Rightarrow> Response \<Rightarrow> http_response" where
  "writeJSON code data =
     \<lparr>status = code, header = [''Content-Type'' \<mapsto> ''application/json''], body = JSON data\<rparr>"

definition writeFileResponse :: "mime_pkg \<Rightarrow> string \<Rightarrow> bytes \<Rightarrow> http_response" where
  "writeFileResponse m filename data =
     (let contentType = TypeByExtension m (Ext filename);
          contentType = (if contentType = [] then ''application/octet-stream'' else contentType)
      in \<lparr>status = 200,
          header = [''Content-Type'' \<mapsto> contentType,
                    ''Content-Disposition'' \<mapsto>
                       ''inline; filename='' @ [CHR 0x22] @ filename @ [CHR 0x22]],
          body = File data\<rparr>)"

definition isNotFoundError :: "goerror \<Rightarrow> bool" where
  "isNotFoundError err =
     (case err of
        None \<Rightarrow> False
      | Some msg \<Rightarrow> Contains msg ''NoSuchKey'' \<or> Contains msg ''not found'')"

section \<open>The file request handler (\<^verbatim>\<open>cmd/server/main.go\<close>)\<close>

text \<open>
  The process holds the two package-level clients (\<open>fileCache\<close> is \<^verbatim>\<open>nil\<close> when Redis is
  not available) and the MIME tables of its runtime. A request carries the path value
  \<^verbatim>\<open>name\<close> and what \<^verbatim>\<open>ctx.Err()\<close> answers when the handler consults it after the origin
  fetch; the 30 second deadline itself is real time and enters only through that answer.
\<close>

record server =
  fileCache :: "RedisCache option"
  fileStorage :: R2Client
  mime :: mime_pkg

datatype ctx_error = Canceled | DeadlineExceeded

record request =
  PathValue_name :: string
  ctx_Err :: "ctx_error option"

text \<open>
  What one run of the handler produces: the response, the backend calls of the request path
  in order, the log lines in order, and the goroutine it launched, if any, as the arguments
  of the \<^verbatim>\<open>fileCache.Set\<close> call that goroutine makes. The goroutine is not run by the handler.
\<close>

datatype backend_call = CacheGet string | StorageGet string

record outcome =
  response :: http_response
  calls :: "backend_call list"
  logs :: "string list"
  spawned :: "(string \<times> bytes) option"

text \<open>Lines 133 to 176: the origin fetch, after the calls and log lines made so far.\<close>

definition fetchFromStorage ::
  "server \<Rightarrow> request \<Rightarrow> string \<Rightarrow> backend_call list \<Rightarrow> string list \<Rightarrow> outcome" where
  "fetchFromStorage sv rq filename cs ls =
     (case R2Client_GetObject (fileStorage sv) filename of
        Inl err \<Rightarrow>
          \<lparr>response =
             (if ctx_Err rq = Some DeadlineExceeded
              then writeJSON 504 \<lparr>Success = False, Message = ''Request timeout'', Data = None\<rparr>
              else if isNotFoundError (Some err)
              then writeJSON 404 \<lparr>Success = False, Message = ''File not found'', Data = None\<rparr>
              else writeJSON 500
                     \<lparr>Success = False, Message = ''Failed to retrieve file'', Data = None\<rparr>),
           calls = cs @ [StorageGet filename],
           logs = ls @ [''R2 error for '' @ filename @ '': '' @ err],
           spawned = None\<rparr>
      | Inr data \<Rightarrow>
          \<lparr>response = writeFileResponse (mime sv) filename data,
           calls = cs @ [StorageGet filename],
           logs = ls,
           spawned = (if fileCache sv \<noteq> None then Some (filename, data) else None)\<rparr>)"

definition getFileHandler :: "server \<Rightarrow> request \<Rightarrow> outcome" where
  "getFileHandler sv rq =
     (let filename = PathValue_name rq in
      if filename = [] then
        \<lparr>response =
           writeJSON 400 \<lparr>Success = False, Message = ''filename is required'', Data = None\<rparr>,
         calls = [], logs = [], spawned = None\<rparr>
      else
        (case fileCache sv of
           Some c \<Rightarrow>
             (case RedisCache_Get c filename of
                (data, found, err) \<Rightarrow>
                  (let ls = (case err of
                               Some e \<Rightarrow> [''Cache error for '' @ filename @ '': '' @ e]
                             | None \<Rightarrow> [])
                   in if found then
                        \<lparr>response = writeFileResponse (mime sv) filename data,
                         calls = [CacheGet filename],
                         logs = ls @ [''Cache HIT for file: '' @ filename],
                         spawned = None\<rparr>
                      else
                        fetchFromStorage sv rq filename [CacheGet filename]
                          (ls @ [''Cache MISS for file: '' @ filename])))
         | None \<Rightarrow>
             fetchFromStorage sv rq filename []
               [''Cache disabled, fetching from R2: '' @ filename]))"

text \<open>
  The body of the goroutine: \<^verbatim>\<open>fileCache.Set\<close> under a context of its own, and one log
  line either way. It returns the cache as the call leaves it.
\<close>

definition populateCache :: "RedisCache \<Rightarrow> string \<Rightarrow> bytes \<Rightarrow> RedisCache \<times> string list" where
  "populateCache c filename data =
     (case RedisCache_Set c filename data of
        (c', Some e) \<Rightarrow> (c', [''Failed to cache file '' @ filename @ '': '' @ e])
      | (c', None) \<Rightarrow> (c', [''Cached file: '' @ filename]))"

text \<open>
  One request served to the end: the handler runs, its response is fixed, and the goroutine
  it launched, if any, then runs to completion against the process's cache. The result is
  the handler's outcome, the process afterwards and the goroutine's log lines.
\<close>

definition serve :: "server \<Rightarrow> request \<Rightarrow> outcome \<times> server \<times> string list" where
  "serve sv rq =
     (let out = getFileHandler sv rq in
      case (spawned out, fileCache sv) of
        (Some (filename, data), Some c) \<Rightarrow>
          (case populateCache c filename data of
             (c', ls) \<Rightarrow> (out, sv\<lparr>fileCache := Some c'\<rparr>, ls))
      | _ \<Rightarrow> (out, sv, []))"

section \<open>The health handler\<close>

text \<open>
  The handler of the revision that probes both backends (5 second budget, real time, not
  modelled). \<^verbatim>\<open>RedisCache.Ping\<close> and \<^verbatim>\<open>R2Client.HealthCheck\<close>, which it calls, are not
  among the sources: what each probe returns is a parameter of the handler. \<open>Ping\<close> is
  consulted only when a cache is configured. The Go map \<^verbatim>\<open>health\<close> is a HOL map that the
  handler updates key by key.
\<close>

record probes =
  Ping :: goerror
  HealthCheck :: goerror

definition healthHandler :: "server \<Rightarrow> probes \<Rightarrow> http_response" where
  "healthHandler sv pr =
     (let health = [''status'' \<mapsto> ''healthy''];
          health =
            (if fileCache sv \<noteq> None then
               (case Ping pr of
                  Some e \<Rightarrow> health(''redis'' \<mapsto> ''unhealthy: '' @ e)
                | None \<Rightarrow> health(''redis'' \<mapsto> ''healthy''))
             else health(''redis'' \<mapsto> ''disabled''))
      in case HealthCheck pr of
           Some e \<Rightarrow>
             writeJSON 503
               \<lparr>Success = False, Message = ''Service is unhealthy'',
                Data = Some (health(''status'' \<mapsto> ''unhealthy'', ''r2'' \<mapsto> ''unhealthy: '' @ e))\<rparr>
         | None \<Rightarrow>
             writeJSON 200
               \<lparr>Success = True, Message = ''Service is healthy'',
                Data = Some (health(''r2'' \<mapsto> ''healthy''))\<rparr>)"

section \<open>Auxiliary definitions for the statements\<close>

text \<open>
  The cache \<open>c\<close> as it would be if it answered without fault and did not hold \<open>key\<close>: the
  cache of an explicit miss.
\<close>

definition missing :: "RedisCache \<Rightarrow> string \<Rightarrow> RedisCache" where
  "missing c key =
     c\<lparr>client := (client c)\<lparr>kv := (kv (client c))(key := None), get_fault := None\<rparr>\<rparr>"

text \<open>The process with the fault of the cache's \<^verbatim>\<open>SET\<close> replaced by \<open>sf\<close>.\<close>

definition withSetFault :: "server \<Rightarrow> goerror \<Rightarrow> server" where
  "withSetFault sv sf =
     sv\<lparr>fileCache :=
          map_option (\<lambda>c. c\<lparr>client := (client c)\<lparr>set_fault := sf\<rparr>\<rparr>) (fileCache sv)\<rparr>"

text \<open>
  A concrete process in the shape of the handler tests: an origin bucket that holds
  \<^verbatim>\<open>test.txt\<close>, returns a body that cannot be read for \<^verbatim>\<open>broken.bin\<close>, refuses
  \<^verbatim>\<open>secret.txt\<close> and reports every other key as missing; a cache given by its store and
  its two faults; the runtime's built-in MIME table.
\<close>

definition demoStorage :: R2Client where
  "demoStorage =
     \<lparr>s3client =
        \<lparr>s3_GetObject = (\<lambda>bucket key.
            if key = ''test.txt'' then S3Body (Inr ''storage file content'')
            else if key = ''broken.bin'' then S3Body (Inl ''unexpected EOF'')
            else if key = ''secret.txt'' then S3Error ''AccessDenied: Access Denied''
            else S3Error ''NoSuchKey: The specified key does not exist.''),
         s3_HeadObject = (\<lambda>bucket key.
            if key = ''test.txt'' then None else Some ''AccessDenied: Access Denied'')\<rparr>,
      bucketName = ''files''\<rparr>"

definition demoCache :: "(string \<rightharpoonup> bytes) \<Rightarrow> goerror \<Rightarrow> goerror \<Rightarrow> RedisCache" where
  "demoCache store gf sf =
     \<lparr>client = \<lparr>kv = store, get_fault = gf, set_fault = sf\<rparr>, ttl = 3600\<rparr>"

definition demoServer :: "RedisCache option \<Rightarrow> server" where
  "demoServer c = \<lparr>fileCache = c, fileStorage = demoStorage, mime = builtinMime (\<lambda>s. s)\<rparr>"

definition demoRequest :: "string \<Rightarrow> ctx_error option \<Rightarrow> request" where
  "demoRequest name e = \<lparr>PathValue_name = name, ctx_Err = e\<rparr>"

definition faultyCache :: RedisCache where
  "faultyCache = demoCache Map.empty (Some ''dial tcp: connection refused'') None"

definition faultyCacheServer :: server where
  "faultyCacheServer = demoServer (Some faultyCache)"

text \<open>A filename with an embedded double quote, a cache whose writes fail, an empty cache.\<close>

definition quotedName :: string where
  "quotedName = [CHR ''a'', CHR 0x22, CHR ''b'']"

definition failingSetServer :: server where
  "failingSetServer = demoServer (Some (demoCache Map.empty None (Some ''READONLY'')))"

definition emptyCacheServer :: server where
  "emptyCacheServer = demoServer (Some (demoCache Map.empty None None))"

text \<open>
  Reading a JSON response: the envelope, and a field of the string map in its \<open>Data\<close>.
\<close>

definition envelope :: "http_response \<Rightarrow> Response option" where
  "envelope resp = (case body resp of JSON r \<Rightarrow> Some r | File d \<Rightarrow> None)"

definition healthField :: "http_response \<Rightarrow> string \<Rightarrow> string option" where
  "healthField resp k =
     (case body resp of
        JSON r \<Rightarrow> (case Data r of Some h \<Rightarrow> h k | None \<Rightarrow> None)
      | File d \<Rightarrow> None)"


section \<open>Properties\<close>

subsection \<open>Library functions and response writers\<close>

lemma HasPrefix_iff: "HasPrefix s p \<longleftrightarrow> prefix p s"
  by (induction s p rule: HasPrefix.induct) auto

text \<open>\<open>Contains\<close> is the contiguous-substring relation.\<close>

lemma Contains_iff: "Contains s sub \<longleftrightarrow> sublist sub s"
  by (induction s) (auto simp: HasPrefix_iff sublist_Cons_right)

lemma writeJSON_simps:
  "status (writeJSON code r) = code"
  "body (writeJSON code r) = JSON r"
  "header (writeJSON code r) = [''Content-Type'' \<mapsto> ''application/json'']"
  by (simp_all add: writeJSON_def)

lemma writeFileResponse_simps:
  "status (writeFileResponse m filename data) = 200"
  "body (writeFileResponse m filename data) = File data"
  "header (writeFileResponse m filename data) ''Content-Disposition'' =
     Some (''inline; filename='' @ [CHR 0x22] @ filename @ [CHR 0x22])"
  by (simp_all add: writeFileResponse_def Let_def)

subsection \<open>The MIME table\<close>








subsection \<open>The paths of the file handler\<close>

lemma fetchFromStorage_ok:
  "R2Client_GetObject (fileStorage sv) filename = Inr data \<Longrightarrow>
   fetchFromStorage sv rq filename cs ls =
     \<lparr>response = writeFileResponse (mime sv) filename data,
      calls = cs @ [StorageGet filename],
      logs = ls,
      spawned = (if fileCache sv \<noteq> None then Some (filename, data) else None)\<rparr>"
  by (simp add: fetchFromStorage_def)

lemma fetchFromStorage_calls:
  "calls (fetchFromStorage sv rq filename cs ls) = cs @ [StorageGet filename]"
  by (simp add: fetchFromStorage_def split: sum.splits)

lemma fetchFromStorage_logs_prefix:
  "l \<in> set ls \<Longrightarrow> l \<in> set (logs (fetchFromStorage sv rq filename cs ls))"
  by (simp add: fetchFromStorage_def split: sum.splits)

lemma fetchFromStorage_cache_irrelevant:
  "response (fetchFromStorage (sv\<lparr>fileCache := fc\<rparr>) rq filename cs ls) =
   response (fetchFromStorage sv rq filename cs' ls')"
  by (simp add: fetchFromStorage_def split: sum.splits)

lemma getFileHandler_hit:
  "PathValue_name rq \<noteq> [] \<Longrightarrow> fileCache sv = Some c \<Longrightarrow>
   redis_Get (client c) (PathValue_name rq) = RedisBytes v \<Longrightarrow>
   getFileHandler sv rq =
     \<lparr>response = writeFileResponse (mime sv) (PathValue_name rq) v,
      calls = [CacheGet (PathValue_name rq)],
      logs = [''Cache HIT for file: '' @ PathValue_name rq],
      spawned = None\<rparr>"
  by (simp add: getFileHandler_def RedisCache_Get_def Let_def)

lemma getFileHandler_cache_error:
  "PathValue_name rq \<noteq> [] \<Longrightarrow> fileCache sv = Some c \<Longrightarrow>
   redis_Get (client c) (PathValue_name rq) = RedisError e \<Longrightarrow>
   getFileHandler sv rq =
     fetchFromStorage sv rq (PathValue_name rq) [CacheGet (PathValue_name rq)]
       [''Cache error for '' @ PathValue_name rq @ '': redis get error: '' @ e,
        ''Cache MISS for file: '' @ PathValue_name rq]"
  by (simp add: getFileHandler_def RedisCache_Get_def Let_def)

lemma getFileHandler_miss:
  "PathValue_name rq \<noteq> [] \<Longrightarrow> fileCache sv = Some c \<Longrightarrow>
   redis_Get (client c) (PathValue_name rq) = RedisNil \<Longrightarrow>
   getFileHandler sv rq =
     fetchFromStorage sv rq (PathValue_name rq) [CacheGet (PathValue_name rq)]
       [''Cache MISS for file: '' @ PathValue_name rq]"
  by (simp add: getFileHandler_def RedisCache_Get_def Let_def)

lemma getFileHandler_no_cache:
  "PathValue_name rq \<noteq> [] \<Longrightarrow> fileCache sv = None \<Longrightarrow>
   getFileHandler sv rq =
     fetchFromStorage sv rq (PathValue_name rq) []
       [''Cache disabled, fetching from R2: '' @ PathValue_name rq]"
  by (simp add: getFileHandler_def Let_def)

lemma redis_Get_missing: "redis_Get (client (missing c key)) key = RedisNil"
  by (simp add: missing_def redis_Get_def)

lemma getFileHandler_reaches_storage:
  assumes "StorageGet k \<in> set (calls (getFileHandler sv rq))"
  shows "\<exists>cs ls. getFileHandler sv rq = fetchFromStorage sv rq (PathValue_name rq) cs ls"
proof (cases "PathValue_name rq = []")
  case True
  with assms show ?thesis by (simp add: getFileHandler_def)
next
  case False
  show ?thesis
  proof (cases "fileCache sv")
    case None
    with False show ?thesis by (auto simp: getFileHandler_no_cache)
  next
    case (Some c)
    show ?thesis
    proof (cases "redis_Get (client c) (PathValue_name rq)")
      case RedisNil
      with False Some show ?thesis by (auto simp: getFileHandler_miss)
    next
      case (RedisError e)
      with False Some show ?thesis by (auto simp: getFileHandler_cache_error)
    next
      case (RedisBytes v)
      with False Some assms show ?thesis by (simp add: getFileHandler_hit)
    qed
  qed
qed

lemma fetchFromStorage_error:
  "R2Client_GetObject (fileStorage sv) filename = Inl err \<Longrightarrow>
   response (fetchFromStorage sv rq filename cs ls) =
     (if ctx_Err rq = Some DeadlineExceeded
      then writeJSON 504 \<lparr>Success = False, Message = ''Request timeout'', Data = None\<rparr>
      else if Contains err ''NoSuchKey'' \<or> Contains err ''not found''
      then writeJSON 404 \<lparr>Success = False, Message = ''File not found'', Data = None\<rparr>
      else writeJSON 500 \<lparr>Success = False, Message = ''Failed to retrieve file'', Data = None\<rparr>)"
  by (simp add: fetchFromStorage_def isNotFoundError_def)

lemma getFileHandler_ok_response:
  assumes "status (response (getFileHandler sv rq)) = 200"
  shows "\<exists>data. response (getFileHandler sv rq) =
           writeFileResponse (mime sv) (PathValue_name rq) data"
proof (cases "PathValue_name rq = []")
  case True
  with assms show ?thesis by (simp add: getFileHandler_def writeJSON_def)
next
  case False
  have f: "\<And>cs ls. status (response (fetchFromStorage sv rq (PathValue_name rq) cs ls)) = 200 \<Longrightarrow>
     \<exists>data. response (fetchFromStorage sv rq (PathValue_name rq) cs ls) =
           writeFileResponse (mime sv) (PathValue_name rq) data"
    by (auto simp: fetchFromStorage_def writeJSON_def split: sum.splits if_splits)
  show ?thesis
  proof (cases "fileCache sv")
    case None
    with False assms f show ?thesis by (simp add: getFileHandler_no_cache)
  next
    case (Some c)
    show ?thesis
    proof (cases "redis_Get (client c) (PathValue_name rq)")
      case RedisNil
      with False Some assms f show ?thesis by (simp add: getFileHandler_miss)
    next
      case (RedisError e)
      with False Some assms f show ?thesis by (simp add: getFileHandler_cache_error)
    next
      case (RedisBytes v)
      show ?thesis
        by (rule exI [of _ v]) (simp add: getFileHandler_hit [OF False Some RedisBytes])
    qed
  qed
qed

subsection \<open>The goroutine and the request served to the end\<close>

lemma withSetFault_simps:
  "fileCache (withSetFault sv sf) =
     map_option (\<lambda>c. c\<lparr>client := (client c)\<lparr>set_fault := sf\<rparr>\<rparr>) (fileCache sv)"
  "fileStorage (withSetFault sv sf) = fileStorage sv"
  "mime (withSetFault sv sf) = mime sv"
  by (simp_all add: withSetFault_def)

lemma fetchFromStorage_withSetFault:
  "fetchFromStorage (withSetFault sv sf) rq filename cs ls = fetchFromStorage sv rq filename cs ls"
  by (simp add: fetchFromStorage_def withSetFault_simps split: sum.splits)

lemma RedisCache_Get_set_fault:
  "RedisCache_Get (c\<lparr>client := (client c)\<lparr>set_fault := sf\<rparr>\<rparr>) key = RedisCache_Get c key"
  by (simp add: RedisCache_Get_def redis_Get_def split: option.splits)

lemma getFileHandler_withSetFault:
  "getFileHandler (withSetFault sv sf) rq = getFileHandler sv rq"
  by (cases "fileCache sv")
     (simp_all add: getFileHandler_def Let_def withSetFault_simps fetchFromStorage_withSetFault
        RedisCache_Get_set_fault split: prod.splits)

lemma fst_serve: "fst (serve sv rq) = getFileHandler sv rq"
  by (simp add: serve_def Let_def split: option.splits prod.splits)

lemma populateCache_fail:
  "set_fault (client c) = Some e \<Longrightarrow>
   populateCache c filename data =
     (c, [''Failed to cache file '' @ filename @ '': redis set error: '' @ e])"
  by (simp add: populateCache_def RedisCache_Set_def redis_Set_def)

lemma populateCache_ok:
  "set_fault (client c) = None \<Longrightarrow>
   populateCache c filename data =
     (c\<lparr>client := (client c)\<lparr>kv := (kv (client c))(filename \<mapsto> data)\<rparr>\<rparr>,
      [''Cached file: '' @ filename])"
  by (simp add: populateCache_def RedisCache_Set_def redis_Set_def)

lemma getFileHandler_origin_ok:
  assumes "StorageGet (PathValue_name rq) \<in> set (calls (getFileHandler sv rq))"
    and "R2Client_GetObject (fileStorage sv) (PathValue_name rq) = Inr data"
  shows "response (getFileHandler sv rq) = writeFileResponse (mime sv) (PathValue_name rq) data"
    and "spawned (getFileHandler sv rq) =
           (if fileCache sv \<noteq> None then Some (PathValue_name rq, data) else None)"
proof -
  from getFileHandler_reaches_storage [OF assms(1)] obtain cs ls
    where h: "getFileHandler sv rq = fetchFromStorage sv rq (PathValue_name rq) cs ls"
    by blast
  show "response (getFileHandler sv rq) = writeFileResponse (mime sv) (PathValue_name rq) data"
    unfolding h by (simp add: fetchFromStorage_ok [OF assms(2)])
  show "spawned (getFileHandler sv rq) =
           (if fileCache sv \<noteq> None then Some (PathValue_name rq, data) else None)"
    unfolding h by (simp add: fetchFromStorage_ok [OF assms(2)])
qed

lemma demo_no_cache_calls:
  "name \<noteq> [] \<Longrightarrow>
   calls (getFileHandler (demoServer None) (demoRequest name e)) = [StorageGet name]"
  by (simp add: getFileHandler_no_cache demoServer_def demoRequest_def fetchFromStorage_calls)

subsection \<open>Cache hit\<close>

text \<open>
  C1. For a non-empty filename for which the cache lookup returns bytes, the handler answers
  with status 200 and a body equal to those bytes, its only backend call is the cache
  lookup, so the origin is not contacted, and it launches no population.
\<close>

theorem cache_hit_served_from_cache:
  assumes "PathValue_name rq \<noteq> []"
    and "fileCache sv = Some c"
    and "redis_Get (client c) (PathValue_name rq) = RedisBytes v"
  shows "status (response (getFileHandler sv rq)) = 200 \<and>
         body (response (getFileHandler sv rq)) = File v \<and>
         calls (getFileHandler sv rq) = [CacheGet (PathValue_name rq)] \<and>
         (\<forall>k. StorageGet k \<notin> set (calls (getFileHandler sv rq))) \<and>
         spawned (getFileHandler sv rq) = None"
  by (simp add: getFileHandler_hit [OF assms] writeFileResponse_simps)

theorem cache_hit_served_from_cache_witness:
  "PathValue_name (demoRequest ''test.txt'' None) \<noteq> [] \<and>
   fileCache (demoServer (Some (demoCache [''test.txt'' \<mapsto> ''cached file content''] None None)))
     = Some (demoCache [''test.txt'' \<mapsto> ''cached file content''] None None) \<and>
   redis_Get (client (demoCache [''test.txt'' \<mapsto> ''cached file content''] None None))
     ''test.txt'' = RedisBytes ''cached file content'' \<and>
   status (response (getFileHandler
     (demoServer (Some (demoCache [''test.txt'' \<mapsto> ''cached file content''] None None)))
     (demoRequest ''test.txt'' None))) = 200 \<and>
   body (response (getFileHandler
     (demoServer (Some (demoCache [''test.txt'' \<mapsto> ''cached file content''] None None)))
     (demoRequest ''test.txt'' None))) = File ''cached file content'' \<and>
   calls (getFileHandler
     (demoServer (Some (demoCache [''test.txt'' \<mapsto> ''cached file content''] None None)))
     (demoRequest ''test.txt'' None)) = [CacheGet ''test.txt'']"
  using cache_hit_served_from_cache
    [of "demoRequest ''test.txt'' None"
        "demoServer (Some (demoCache [''test.txt'' \<mapsto> ''cached file content''] None None))"
        "demoCache [''test.txt'' \<mapsto> ''cached file content''] None None"
        "''cached file content''"]
  by (simp add: demoRequest_def demoServer_def demoCache_def redis_Get_def)

subsection \<open>Cache lookup failure\<close>

text \<open>
  C3. When the cache lookup for a non-empty filename fails with an error other than the
  explicit miss, the handler logs the error, goes on to the origin exactly as after a miss
  (the same response as with a cache that reports the miss), and answers 200 with the
  origin's bytes whenever the origin returns them: the cache error does not show in the
  response.
\<close>

theorem cache_error_falls_through:
  assumes "PathValue_name rq \<noteq> []"
    and "fileCache sv = Some c"
    and "redis_Get (client c) (PathValue_name rq) = RedisError e"
  shows "(''Cache error for '' @ PathValue_name rq @ '': redis get error: '' @ e)
           \<in> set (logs (getFileHandler sv rq)) \<and>
         calls (getFileHandler sv rq) =
           [CacheGet (PathValue_name rq), StorageGet (PathValue_name rq)] \<and>
         response (getFileHandler
             (sv\<lparr>fileCache := Some (missing c (PathValue_name rq))\<rparr>) rq) =
           response (getFileHandler sv rq) \<and>
         (\<forall>data. R2Client_GetObject (fileStorage sv) (PathValue_name rq) = Inr data \<longrightarrow>
            status (response (getFileHandler sv rq)) = 200 \<and>
            body (response (getFileHandler sv rq)) = File data)"
proof -
  let ?name = "PathValue_name rq"
  let ?sv' = "sv\<lparr>fileCache := Some (missing c ?name)\<rparr>"
  note h = getFileHandler_cache_error [OF assms]
  have m: "getFileHandler ?sv' rq =
      fetchFromStorage ?sv' rq ?name [CacheGet ?name] [''Cache MISS for file: '' @ ?name]"
    by (rule getFileHandler_miss [where c = "missing c ?name"])
       (simp_all add: assms(1) redis_Get_missing)
  have 1: "(''Cache error for '' @ ?name @ '': redis get error: '' @ e)
             \<in> set (logs (getFileHandler sv rq))"
    unfolding h by (rule fetchFromStorage_logs_prefix) simp
  have 2: "calls (getFileHandler sv rq) = [CacheGet ?name, StorageGet ?name]"
    unfolding h by (simp add: fetchFromStorage_calls)
  have 3: "response (getFileHandler ?sv' rq) = response (getFileHandler sv rq)"
    unfolding h m by (rule fetchFromStorage_cache_irrelevant)
  have 4: "\<forall>data. R2Client_GetObject (fileStorage sv) ?name = Inr data \<longrightarrow>
            status (response (getFileHandler sv rq)) = 200 \<and>
            body (response (getFileHandler sv rq)) = File data"
    unfolding h by (simp add: fetchFromStorage_ok writeFileResponse_simps)
  from 1 2 3 4 show ?thesis by blast
qed

theorem cache_error_falls_through_witness:
  "PathValue_name (demoRequest ''test.txt'' None) \<noteq> [] \<and>
   fileCache faultyCacheServer = Some faultyCache \<and>
   redis_Get (client faultyCache) ''test.txt'' = RedisError ''dial tcp: connection refused'' \<and>
   R2Client_GetObject (fileStorage faultyCacheServer) ''test.txt''
     = Inr ''storage file content'' \<and>
   ''Cache error for test.txt: redis get error: dial tcp: connection refused''
     \<in> set (logs (getFileHandler faultyCacheServer (demoRequest ''test.txt'' None))) \<and>
   calls (getFileHandler faultyCacheServer (demoRequest ''test.txt'' None))
     = [CacheGet ''test.txt'', StorageGet ''test.txt''] \<and>
   status (response (getFileHandler faultyCacheServer (demoRequest ''test.txt'' None))) = 200 \<and>
   body (response (getFileHandler faultyCacheServer (demoRequest ''test.txt'' None)))
     = File ''storage file content''"
proof -
  let ?rq = "demoRequest ''test.txt'' None"
  have n: "PathValue_name ?rq = ''test.txt''"
    by (simp add: demoRequest_def)
  have a: "PathValue_name ?rq \<noteq> []"
    by (simp add: n)
  have b: "fileCache faultyCacheServer = Some faultyCache"
    by (simp add: faultyCacheServer_def demoServer_def)
  have c: "redis_Get (client faultyCache) (PathValue_name ?rq)
             = RedisError ''dial tcp: connection refused''"
    by (simp add: n faultyCache_def demoCache_def redis_Get_def)
  have d: "R2Client_GetObject (fileStorage faultyCacheServer) ''test.txt''
             = Inr ''storage file content''"
    by (simp add: faultyCacheServer_def demoServer_def demoStorage_def R2Client_GetObject_def)
  from cache_error_falls_through [OF a b c] b c d show ?thesis
    by (simp add: n)
qed

subsection \<open>Empty filename\<close>

text \<open>
  C8. A request whose path value is the empty string is answered with status 400 and the
  envelope with success false and the message "filename is required"; the handler calls
  neither the cache nor the origin and launches nothing.
\<close>

theorem empty_filename_rejected:
  "PathValue_name rq = [] \<Longrightarrow>
     status (response (getFileHandler sv rq)) = 400 \<and>
     body (response (getFileHandler sv rq)) =
       JSON \<lparr>Success = False, Message = ''filename is required'', Data = None\<rparr> \<and>
     calls (getFileHandler sv rq) = [] \<and>
     spawned (getFileHandler sv rq) = None"
  by (simp add: getFileHandler_def writeJSON_def)

theorem empty_filename_rejected_witness:
  "PathValue_name (demoRequest [] None) = [] \<and>
   status (response (getFileHandler (demoServer None) (demoRequest [] None))) = 400 \<and>
   body (response (getFileHandler (demoServer None) (demoRequest [] None))) =
     JSON \<lparr>Success = False, Message = ''filename is required'', Data = None\<rparr> \<and>
   calls (getFileHandler (demoServer None) (demoRequest [] None)) = [] \<and>
   spawned (getFileHandler (demoServer None) (demoRequest [] None)) = None"
  using empty_filename_rejected [of "demoRequest [] None" "demoServer None"]
  by (simp add: demoRequest_def)

subsection \<open>Origin errors\<close>

text \<open>
  C4. When the handler has called the origin and \<^verbatim>\<open>GetObject\<close> returned an error, the
  response is exactly one of three: 504 "Request timeout" if the request context reports
  that its deadline is exceeded, whatever the error says; otherwise 404 "File not found" if
  the error message contains "NoSuchKey" or "not found"; otherwise 500 "Failed to retrieve
  file". The not-found test is the substring test on the message.
\<close>

theorem origin_error_classified:
  assumes "StorageGet (PathValue_name rq) \<in> set (calls (getFileHandler sv rq))"
    and "R2Client_GetObject (fileStorage sv) (PathValue_name rq) = Inl err"
  shows "response (getFileHandler sv rq) =
           (if ctx_Err rq = Some DeadlineExceeded
            then writeJSON 504 \<lparr>Success = False, Message = ''Request timeout'', Data = None\<rparr>
            else if Contains err ''NoSuchKey'' \<or> Contains err ''not found''
            then writeJSON 404 \<lparr>Success = False, Message = ''File not found'', Data = None\<rparr>
            else writeJSON 500
                   \<lparr>Success = False, Message = ''Failed to retrieve file'', Data = None\<rparr>) \<and>
         status (response (getFileHandler sv rq)) =
           (if ctx_Err rq = Some DeadlineExceeded then 504
            else if Contains err ''NoSuchKey'' \<or> Contains err ''not found'' then 404
            else 500) \<and>
         isNotFoundError (Some err) = (Contains err ''NoSuchKey'' \<or> Contains err ''not found'')"
proof -
  from getFileHandler_reaches_storage [OF assms(1)] obtain cs ls
    where h: "getFileHandler sv rq = fetchFromStorage sv rq (PathValue_name rq) cs ls"
    by blast
  show ?thesis
    unfolding h fetchFromStorage_error [OF assms(2)]
    by (simp add: writeJSON_simps isNotFoundError_def)
qed

theorem origin_error_classified_witness:
  "StorageGet ''nope.txt'' \<in> set (calls (getFileHandler (demoServer None)
      (demoRequest ''nope.txt'' (Some DeadlineExceeded)))) \<and>
   R2Client_GetObject (fileStorage (demoServer None)) ''nope.txt'' =
     Inl ''failed to get object nope.txt: NoSuchKey: The specified key does not exist.'' \<and>
   R2Client_GetObject (fileStorage (demoServer None)) ''secret.txt'' =
     Inl ''failed to get object secret.txt: AccessDenied: Access Denied'' \<and>
   status (response (getFileHandler (demoServer None)
     (demoRequest ''nope.txt'' (Some DeadlineExceeded)))) = 504 \<and>
   status (response (getFileHandler (demoServer None) (demoRequest ''nope.txt'' None))) = 404 \<and>
   status (response (getFileHandler (demoServer None)
     (demoRequest ''secret.txt'' (Some Canceled)))) = 500"
proof -
  let ?sv = "demoServer None"
  have n: "\<And>name e. PathValue_name (demoRequest name e) = name"
          "\<And>name e. ctx_Err (demoRequest name e) = e"
    by (simp_all add: demoRequest_def)
  have c: "\<And>name e. name \<noteq> [] \<Longrightarrow>
      StorageGet (PathValue_name (demoRequest name e))
        \<in> set (calls (getFileHandler ?sv (demoRequest name e)))"
    by (simp add: demo_no_cache_calls n)
  have g1: "R2Client_GetObject (fileStorage ?sv) ''nope.txt'' =
     Inl ''failed to get object nope.txt: NoSuchKey: The specified key does not exist.''"
    by (simp add: demoServer_def demoStorage_def R2Client_GetObject_def)
  have g2: "R2Client_GetObject (fileStorage ?sv) ''secret.txt'' =
     Inl ''failed to get object secret.txt: AccessDenied: Access Denied''"
    by (simp add: demoServer_def demoStorage_def R2Client_GetObject_def)
  have k1: "Contains ''failed to get object nope.txt: NoSuchKey: The specified key does not exist.''
              ''NoSuchKey''"
    by simp
  have k2: "\<not> Contains ''failed to get object secret.txt: AccessDenied: Access Denied'' ''NoSuchKey''"
           "\<not> Contains ''failed to get object secret.txt: AccessDenied: Access Denied'' ''not found''"
    by simp_all
  have s1: "status (response (getFileHandler ?sv
     (demoRequest ''nope.txt'' (Some DeadlineExceeded)))) = 504"
    using origin_error_classified [of "demoRequest ''nope.txt'' (Some DeadlineExceeded)" ?sv]
      c [of "''nope.txt''"] g1 by (simp add: n writeJSON_simps)
  have s2: "status (response (getFileHandler ?sv (demoRequest ''nope.txt'' None))) = 404"
    using origin_error_classified [of "demoRequest ''nope.txt'' None" ?sv] c [of "''nope.txt''"] g1 k1
    by (simp add: n writeJSON_simps del: Contains.simps)
  have s3: "status (response (getFileHandler ?sv (demoRequest ''secret.txt'' (Some Canceled)))) = 500"
    using origin_error_classified [of "demoRequest ''secret.txt'' (Some Canceled)" ?sv]
      c [of "''secret.txt''"] g2 k2
    by (simp add: n writeJSON_simps del: Contains.simps)
  from c [of "''nope.txt''" "Some DeadlineExceeded"] g1 g2 s1 s2 s3 show ?thesis
    by (simp add: n)
qed

subsection \<open>Content-Disposition\<close>

text \<open>
  C7. The file response sets Content-Disposition to the string inline; filename="<name>" with
  the filename between the quotes byte for byte, also when it holds a double quote; every
  response of the handler with status 200 carries this header for the requested name. The
  value is the one the handler hands to the response writer.
\<close>

theorem content_disposition_inline:
  "header (writeFileResponse m filename data) ''Content-Disposition'' =
     Some (''inline; filename='' @ [CHR 0x22] @ filename @ [CHR 0x22]) \<and>
   (status (response (getFileHandler sv rq)) = 200 \<longrightarrow>
      header (response (getFileHandler sv rq)) ''Content-Disposition'' =
        Some (''inline; filename='' @ [CHR 0x22] @ PathValue_name rq @ [CHR 0x22]))"
  using getFileHandler_ok_response [of sv rq]
  by (auto simp: writeFileResponse_simps)

theorem content_disposition_inline_witness:
  "status (response (getFileHandler
      (demoServer (Some (demoCache [quotedName \<mapsto> ''x''] None None)))
      (demoRequest quotedName None))) = 200 \<and>
   header (response (getFileHandler
      (demoServer (Some (demoCache [quotedName \<mapsto> ''x''] None None)))
      (demoRequest quotedName None))) ''Content-Disposition'' =
     Some (''inline; filename='' @ [CHR 0x22, CHR ''a'', CHR 0x22, CHR ''b'', CHR 0x22])"
proof -
  let ?c = "demoCache [quotedName \<mapsto> ''x''] None None"
  let ?sv = "demoServer (Some ?c)"
  let ?rq = "demoRequest quotedName None"
  have n: "PathValue_name ?rq = quotedName"
    by (simp add: demoRequest_def)
  have h: "getFileHandler ?sv ?rq =
     \<lparr>response = writeFileResponse (mime ?sv) (PathValue_name ?rq) ''x'',
      calls = [CacheGet (PathValue_name ?rq)],
      logs = [''Cache HIT for file: '' @ PathValue_name ?rq],
      spawned = None\<rparr>"
    by (rule getFileHandler_hit [where c = ?c])
       (simp_all add: demoRequest_def quotedName_def demoServer_def demoCache_def redis_Get_def)
  have s: "status (response (getFileHandler ?sv ?rq)) = 200"
    unfolding h by (simp add: writeFileResponse_simps)
  from content_disposition_inline [of _ quotedName _ ?sv ?rq] s show ?thesis
    by (simp add: demoRequest_def quotedName_def)
qed

subsection \<open>ObjectExists\<close>

text \<open>
  C10. Whenever \<^verbatim>\<open>HeadObject\<close> fails, with whatever error, \<open>ObjectExists\<close> returns false
  and no error: the answer is the same for a missing object and for a failed check.
\<close>

theorem ObjectExists_error_is_absent:
  "s3_HeadObject (s3client r) (bucketName r) key = Some e \<Longrightarrow>
   ObjectExists r key = (False, None)"
  by (simp add: ObjectExists_def)

theorem ObjectExists_error_is_absent_witness:
  "s3_HeadObject (s3client demoStorage) (bucketName demoStorage) ''secret.txt''
     = Some ''AccessDenied: Access Denied'' \<and>
   ObjectExists demoStorage ''secret.txt'' = (False, None)"
proof -
  have a: "s3_HeadObject (s3client demoStorage) (bucketName demoStorage) ''secret.txt''
     = Some ''AccessDenied: Access Denied''"
    by (simp add: demoStorage_def)
  from ObjectExists_error_is_absent [OF a] a show ?thesis by simp
qed

subsection \<open>Background population\<close>

text \<open>
  C9. When the handler has called the origin and \<^verbatim>\<open>GetObject\<close> returned the bytes, the
  response is 200 with those bytes whatever the cache's \<^verbatim>\<open>SET\<close> will answer: the handler's
  outcome is fixed before the goroutine runs and is the same for every fault of the write.
  When the write fails, the goroutine leaves one log line and the process as it was. The
  goroutine is modelled as running after the handler has produced its outcome; that it runs
  concurrently with the writing of the response is not part of the model.
\<close>

theorem population_failure_not_visible:
  assumes "StorageGet (PathValue_name rq) \<in> set (calls (getFileHandler sv rq))"
    and "R2Client_GetObject (fileStorage sv) (PathValue_name rq) = Inr data"
  shows "(\<forall>sf. status (response (fst (serve (withSetFault sv sf) rq))) = 200 \<and>
              body (response (fst (serve (withSetFault sv sf) rq))) = File data \<and>
              fst (serve (withSetFault sv sf) rq) = getFileHandler sv rq) \<and>
         (\<forall>c e. fileCache sv = Some c \<and> set_fault (client c) = Some e \<longrightarrow>
              snd (serve sv rq) =
                (sv, [''Failed to cache file '' @ PathValue_name rq @ '': redis set error: '' @ e]))"
proof -
  note r = getFileHandler_origin_ok [OF assms]
  have 1: "\<And>sf. fst (serve (withSetFault sv sf) rq) = getFileHandler sv rq"
    by (simp add: fst_serve getFileHandler_withSetFault)
  have 2: "status (response (getFileHandler sv rq)) = 200"
          "body (response (getFileHandler sv rq)) = File data"
    by (simp_all add: r writeFileResponse_simps)
  have 3: "snd (serve sv rq) =
      (sv, [''Failed to cache file '' @ PathValue_name rq @ '': redis set error: '' @ e])"
    if "fileCache sv = Some c" and "set_fault (client c) = Some e" for c e
  proof -
    from that(1) have "sv\<lparr>fileCache := Some c\<rparr> = sv" by simp
    with that show ?thesis
      by (simp add: serve_def Let_def r populateCache_fail)
  qed
  from 1 2 3 show ?thesis by simp
qed

theorem population_failure_not_visible_witness:
  "StorageGet ''test.txt''
     \<in> set (calls (getFileHandler failingSetServer (demoRequest ''test.txt'' None))) \<and>
   R2Client_GetObject (fileStorage failingSetServer) ''test.txt'' = Inr ''storage file content'' \<and>
   status (response (fst (serve failingSetServer (demoRequest ''test.txt'' None)))) = 200 \<and>
   body (response (fst (serve failingSetServer (demoRequest ''test.txt'' None))))
     = File ''storage file content'' \<and>
   body (response (fst (serve emptyCacheServer (demoRequest ''test.txt'' None))))
     = File ''storage file content'' \<and>
   snd (serve failingSetServer (demoRequest ''test.txt'' None)) =
     (failingSetServer, [''Failed to cache file test.txt: redis set error: READONLY''])"
proof -
  let ?rq = "demoRequest ''test.txt'' None"
  let ?c = "demoCache Map.empty None (Some ''READONLY'')"
  have n: "PathValue_name ?rq = ''test.txt''"
    by (simp add: demoRequest_def)
  have fc: "fileCache failingSetServer = Some ?c"
    by (simp add: failingSetServer_def demoServer_def)
  have sf: "set_fault (client ?c) = Some ''READONLY''"
    by (simp add: demoCache_def)
  have m: "redis_Get (client ?c) (PathValue_name ?rq) = RedisNil"
    by (simp add: demoCache_def redis_Get_def)
  have a: "StorageGet (PathValue_name ?rq) \<in> set (calls (getFileHandler failingSetServer ?rq))"
    by (simp add: getFileHandler_miss [OF _ fc m] n fetchFromStorage_calls)
  have b: "R2Client_GetObject (fileStorage failingSetServer) (PathValue_name ?rq)
             = Inr ''storage file content''"
    by (simp add: n failingSetServer_def demoServer_def demoStorage_def R2Client_GetObject_def)
  have w1: "withSetFault failingSetServer (Some ''READONLY'') = failingSetServer"
    by (simp add: withSetFault_def failingSetServer_def demoServer_def demoCache_def)
  have w2: "withSetFault failingSetServer None = emptyCacheServer"
    by (simp add: withSetFault_def failingSetServer_def emptyCacheServer_def demoServer_def
          demoCache_def)
  note t = population_failure_not_visible [OF a b]
  from t have t1: "status (response (fst (serve (withSetFault failingSetServer (Some ''READONLY'')) ?rq))) = 200"
    and t2: "body (response (fst (serve (withSetFault failingSetServer (Some ''READONLY'')) ?rq)))
              = File ''storage file content''"
    and t3: "body (response (fst (serve (withSetFault failingSetServer None) ?rq)))
              = File ''storage file content''"
    by blast+
  from t fc sf have t4: "snd (serve failingSetServer ?rq) =
     (failingSetServer, [''Failed to cache file '' @ PathValue_name ?rq @ '': redis set error: '' @ ''READONLY''])"
    by blast
  from a b t1 t2 t3 t4 show ?thesis
    by (simp add: w1 w2 n)
qed

subsection \<open>Round trip through the cache\<close>

text \<open>
  C2. For a non-empty key that the cache reports as a miss and for which the origin returns
  bytes, the handler answers 200 with the origin's bytes; once the population has completed
  without error, the cache holds the same bytes under that key, and a later request for the
  same name is answered with an identical response from the cache alone.
\<close>

theorem origin_bytes_round_trip:
  assumes "PathValue_name rq \<noteq> []"
    and "fileCache sv = Some c"
    and "redis_Get (client c) (PathValue_name rq) = RedisNil"
    and "set_fault (client c) = None"
    and "R2Client_GetObject (fileStorage sv) (PathValue_name rq) = Inr data"
    and "PathValue_name rq' = PathValue_name rq"
  shows "status (response (fst (serve sv rq))) = 200 \<and>
         body (response (fst (serve sv rq))) = File data \<and>
         calls (fst (serve sv rq)) = [CacheGet (PathValue_name rq), StorageGet (PathValue_name rq)] \<and>
         (\<exists>c'. fileCache (fst (snd (serve sv rq))) = Some c' \<and>
               kv (client c') (PathValue_name rq) = Some data) \<and>
         status (response (getFileHandler (fst (snd (serve sv rq))) rq')) = 200 \<and>
         body (response (getFileHandler (fst (snd (serve sv rq))) rq')) = File data \<and>
         calls (getFileHandler (fst (snd (serve sv rq))) rq') = [CacheGet (PathValue_name rq)] \<and>
         response (getFileHandler (fst (snd (serve sv rq))) rq') = response (fst (serve sv rq))"
proof -
  let ?name = "PathValue_name rq"
  let ?c' = "c\<lparr>client := (client c)\<lparr>kv := (kv (client c))(?name \<mapsto> data)\<rparr>\<rparr>"
  let ?sv' = "sv\<lparr>fileCache := Some ?c'\<rparr>"
  have h: "getFileHandler sv rq =
     \<lparr>response = writeFileResponse (mime sv) ?name data,
      calls = [CacheGet ?name, StorageGet ?name],
      logs = [''Cache MISS for file: '' @ ?name],
      spawned = Some (?name, data)\<rparr>"
    by (simp add: getFileHandler_miss [OF assms(1,2,3)] fetchFromStorage_ok [OF assms(5)] assms(2))
  have s: "serve sv rq = (getFileHandler sv rq, ?sv', [''Cached file: '' @ ?name])"
    by (simp add: serve_def Let_def h assms(2) populateCache_ok [OF assms(4)])
  from assms(3) have gf: "get_fault (client c) = None"
    by (simp add: redis_Get_def split: option.splits)
  have g: "redis_Get (client ?c') (PathValue_name rq') = RedisBytes data"
    by (simp add: redis_Get_def gf assms(6))
  have h': "getFileHandler ?sv' rq' =
     \<lparr>response = writeFileResponse (mime ?sv') (PathValue_name rq') data,
      calls = [CacheGet (PathValue_name rq')],
      logs = [''Cache HIT for file: '' @ PathValue_name rq'],
      spawned = None\<rparr>"
    using assms(1,6) g by (intro getFileHandler_hit [where c = ?c']) simp_all
  show ?thesis
    by (simp add: s h h' assms(6) writeFileResponse_simps)
qed

theorem origin_bytes_round_trip_witness:
  "PathValue_name (demoRequest ''test.txt'' None) \<noteq> [] \<and>
   fileCache emptyCacheServer = Some (demoCache Map.empty None None) \<and>
   redis_Get (client (demoCache Map.empty None None)) ''test.txt'' = RedisNil \<and>
   set_fault (client (demoCache Map.empty None None)) = None \<and>
   R2Client_GetObject (fileStorage emptyCacheServer) ''test.txt'' = Inr ''storage file content'' \<and>
   body (response (fst (serve emptyCacheServer (demoRequest ''test.txt'' None))))
     = File ''storage file content'' \<and>
   body (response (getFileHandler
       (fst (snd (serve emptyCacheServer (demoRequest ''test.txt'' None))))
       (demoRequest ''test.txt'' (Some Canceled)))) = File ''storage file content'' \<and>
   calls (getFileHandler
       (fst (snd (serve emptyCacheServer (demoRequest ''test.txt'' None))))
       (demoRequest ''test.txt'' (Some Canceled))) = [CacheGet ''test.txt'']"
proof -
  let ?rq = "demoRequest ''test.txt'' None"
  let ?rq' = "demoRequest ''test.txt'' (Some Canceled)"
  let ?c = "demoCache Map.empty None None"
  have n: "PathValue_name ?rq = ''test.txt''" "PathValue_name ?rq' = ''test.txt''"
    by (simp_all add: demoRequest_def)
  have a: "PathValue_name ?rq \<noteq> []"
    by (simp add: n)
  have b: "fileCache emptyCacheServer = Some ?c"
    by (simp add: emptyCacheServer_def demoServer_def)
  have c: "redis_Get (client ?c) (PathValue_name ?rq) = RedisNil"
    by (simp add: demoCache_def redis_Get_def)
  have d: "set_fault (client ?c) = None"
    by (simp add: demoCache_def)
  have e: "R2Client_GetObject (fileStorage emptyCacheServer) (PathValue_name ?rq)
             = Inr ''storage file content''"
    by (simp add: n emptyCacheServer_def demoServer_def demoStorage_def R2Client_GetObject_def)
  have f: "PathValue_name ?rq' = PathValue_name ?rq"
    by (simp add: n)
  from origin_bytes_round_trip [OF a b c d e f] a b c d e show ?thesis
    by (simp add: n)
qed

subsection \<open>Health\<close>

text \<open>
  C5. The health response is 503 with success false and status "unhealthy" exactly when the
  origin probe fails, and 200 with success true and status "healthy" exactly when it
  succeeds: status code, success flag and status field are functions of the origin probe
  alone. The cache field reads "disabled" when no cache is configured, "healthy" when the
  ping succeeds and "unhealthy: <error>" when it fails; none of this enters the overall
  status.
\<close>

theorem health_overall_iff_origin:
  "(status (healthHandler sv pr) = 503 \<longleftrightarrow> HealthCheck pr \<noteq> None) \<and>
   (status (healthHandler sv pr) = 200 \<longleftrightarrow> HealthCheck pr = None) \<and>
   map_option Success (envelope (healthHandler sv pr)) = Some (HealthCheck pr = None) \<and>
   healthField (healthHandler sv pr) ''status'' =
     Some (if HealthCheck pr = None then ''healthy'' else ''unhealthy'') \<and>
   healthField (healthHandler sv pr) ''redis'' =
     Some (if fileCache sv = None then ''disabled''
           else case Ping pr of None \<Rightarrow> ''healthy'' | Some e \<Rightarrow> ''unhealthy: '' @ e) \<and>
   healthField (healthHandler sv pr) ''r2'' =
     Some (case HealthCheck pr of None \<Rightarrow> ''healthy'' | Some e \<Rightarrow> ''unhealthy: '' @ e)"
  by (cases "HealthCheck pr"; cases "Ping pr")
     (simp_all add: healthHandler_def Let_def writeJSON_def envelope_def healthField_def)

theorem health_overall_iff_origin_witness:
  "status (healthHandler (demoServer (Some faultyCache))
      \<lparr>Ping = Some ''connection refused'', HealthCheck = None\<rparr>) = 200 \<and>
   healthField (healthHandler (demoServer (Some faultyCache))
      \<lparr>Ping = Some ''connection refused'', HealthCheck = None\<rparr>) ''status'' = Some ''healthy'' \<and>
   healthField (healthHandler (demoServer (Some faultyCache))
      \<lparr>Ping = Some ''connection refused'', HealthCheck = None\<rparr>) ''redis''
     = Some ''unhealthy: connection refused'' \<and>
   status (healthHandler (demoServer (Some faultyCache))
      \<lparr>Ping = None, HealthCheck = Some ''bucket not found''\<rparr>) = 503 \<and>
   map_option Success (envelope (healthHandler (demoServer (Some faultyCache))
      \<lparr>Ping = None, HealthCheck = Some ''bucket not found''\<rparr>)) = Some False \<and>
   healthField (healthHandler (demoServer None)
      \<lparr>Ping = None, HealthCheck = None\<rparr>) ''redis'' = Some ''disabled'' \<and>
   status (healthHandler (demoServer None) \<lparr>Ping = None, HealthCheck = None\<rparr>) = 200"
  using health_overall_iff_origin [of "demoServer (Some faultyCache)"
          "\<lparr>Ping = Some ''connection refused'', HealthCheck = None\<rparr>"]
        health_overall_iff_origin [of "demoServer (Some faultyCache)"
          "\<lparr>Ping = None, HealthCheck = Some ''bucket not found''\<rparr>"]
        health_overall_iff_origin [of "demoServer None" "\<lparr>Ping = None, HealthCheck = None\<rparr>"]
  by (simp add: demoServer_def)

subsection \<open>Content-Type\<close>



end
